theory Spec2Isabelle
  imports Main
begin

section \<open>Data model\<close>

text \<open>
  The interface \<open>VSCode\<close> of both entry points: a release name and the three bundled
  versions, each of type \<open>string|undefined\<close>. \<open>None\<close> stands for \<open>undefined\<close>.
\<close>

record VSCode =
  vscode :: string
  electron :: "string option"
  node :: "string option"
  chrome :: "string option"

text \<open>
  The two ways a run aborts: a rejected request (transport failure or a status outside 2xx,
  which request-promise turns into a rejection) and a JavaScript \<open>TypeError\<close> (a method
  called on \<open>undefined\<close>).
\<close>

datatype error = RequestError | TypeError

section \<open>JavaScript strings\<close>

text \<open>
  A string is the list of its code units, of which the model has those below 256.
\<close>

text \<open>
  The relational operator \<open>>\<close> on two strings: \<open>a > b\<close> holds when \<open>b\<close> is a proper
  prefix of \<open>a\<close>, or when at the first position where they differ the code unit of \<open>a\<close> is
  the larger one.
\<close>

fun js_gt :: "string \<Rightarrow> string \<Rightarrow> bool" where
  "js_gt [] b = False"
| "js_gt (x # xs) [] = True"
| "js_gt (x # xs) (y # ys) =
     (if x = y then js_gt xs ys else (of_char y :: nat) < of_char x)"

text \<open>
  \<open>a > b\<close> where either side may be \<open>undefined\<close> (an array read past the end): with an
  operand that is not a string both are converted to numbers, \<open>undefined\<close> becomes NaN
  and the comparison is false.
\<close>

fun gt_opt :: "string option \<Rightarrow> string option \<Rightarrow> bool" where
  "gt_opt (Some a) (Some b) = js_gt a b"
| "gt_opt _ _ = False"

text \<open>Truthiness of a \<open>string|undefined\<close>: \<open>undefined\<close> and the empty string are falsy.\<close>

fun truthy :: "string option \<Rightarrow> bool" where
  "truthy None = False"
| "truthy (Some s) = (s \<noteq> [])"

text \<open>\<open>s.split(c)\<close> for a one-character separator: never empty, \<open>''''.split(c)\<close> is \<open>['''']\<close>.\<close>

fun split_on :: "char \<Rightarrow> string \<Rightarrow> string list" where
  "split_on c [] = [[]]"
| "split_on c (x # xs) =
     (if x = c then [] # split_on c xs
      else (case split_on c xs of
              [] \<Rightarrow> [[x]]
            | y # ys \<Rightarrow> (x # y) # ys))"

text \<open>\<open>arr[i]\<close>: \<open>undefined\<close> past the end.\<close>

fun index :: "'a list \<Rightarrow> nat \<Rightarrow> 'a option" where
  "index [] i = None"
| "index (x # xs) 0 = Some x"
| "index (x # xs) (Suc i) = index xs i"

section \<open>Severity classifier (saveToFile, the computation of alertLevel)\<close>

text \<open>
  \<open>(v as string).split('.')\<close>: the cast checks nothing, so on \<open>undefined\<close> the call
  throws a TypeError.
\<close>

text \<open>Sequencing of steps that may throw: the first exception ends the computation.\<close>

definition andThen :: "error + 'a \<Rightarrow> ('a \<Rightarrow> error + 'b) \<Rightarrow> error + 'b" where
  "andThen m f = (case m of Inl e \<Rightarrow> Inl e | Inr x \<Rightarrow> f x)"

definition split_version :: "string option \<Rightarrow> error + string list" where
  "split_version v = (case v of None \<Rightarrow> Inl TypeError | Some s \<Rightarrow> Inr (split_on CHR ''.'' s))"

text \<open>
  The condition used for the electron and the node field:
  \<open>v1[0] > v2[0] || v1[1] && v2[1] && v1[1] > v2[1]\<close>.
\<close>

definition major_minor_gt :: "string list \<Rightarrow> string list \<Rightarrow> bool" where
  "major_minor_gt v1 v2 =
     (gt_opt (index v1 0) (index v2 0) \<or>
      (truthy (index v1 1) \<and> truthy (index v2 1) \<and> gt_opt (index v1 1) (index v2 1)))"

text \<open>The condition used for the chrome field: \<open>cv1[0] > cv2[0]\<close>.\<close>

definition major_gt :: "string list \<Rightarrow> string list \<Rightarrow> bool" where
  "major_gt v1 v2 = gt_opt (index v1 0) (index v2 0)"

text \<open>
  The three comparisons of one block, on the entries \<open>a\<close> (the newer one) and \<open>b\<close>:
  each one that holds assigns \<open>level\<close> to alertLevel. The two blocks of saveToFile are this
  text with \<open>(list[0], list[1], 2)\<close> and \<open>(list[1], list[2], 1)\<close>.
\<close>

definition compare_versions :: "VSCode \<Rightarrow> VSCode \<Rightarrow> nat \<Rightarrow> nat \<Rightarrow> error + nat" where
  "compare_versions a b level alertLevel =
     andThen (split_version (electron a)) (\<lambda>ev1.
     andThen (split_version (electron b)) (\<lambda>ev2.
     let al1 = (if major_minor_gt ev1 ev2 then level else alertLevel) in
     andThen (split_version (node a)) (\<lambda>nv1.
     andThen (split_version (node b)) (\<lambda>nv2.
     let al2 = (if major_minor_gt nv1 nv2 then level else al1) in
     andThen (split_version (chrome a)) (\<lambda>cv1.
     andThen (split_version (chrome b)) (\<lambda>cv2.
     Inr (if major_gt cv1 cv2 then level else al2)))))))"

text \<open>The first block: guarded by \<open>list[0].electron && list[1].electron\<close>.\<close>

definition warning_block :: "VSCode list \<Rightarrow> error + nat" where
  "warning_block list =
     (if truthy (electron (list ! 0)) \<and> truthy (electron (list ! 1))
      then compare_versions (list ! 0) (list ! 1) 2 0
      else Inr 0)"

text \<open>The second block: guarded by \<open>list.length > 2 && !alertLevel\<close> only.\<close>

definition notice_block :: "VSCode list \<Rightarrow> nat \<Rightarrow> error + nat" where
  "notice_block list alertLevel =
     (if length list > 2 \<and> alertLevel = 0
      then compare_versions (list ! 1) (list ! 2) 1 alertLevel
      else Inr alertLevel)"

text \<open>The value of alertLevel when the switch is reached: 0 none, 1 notice, 2 warning.\<close>

definition alertLevel :: "VSCode list \<Rightarrow> error + nat" where
  "alertLevel list =
     (if length list > 1
      then andThen (warning_block list) (\<lambda>al. notice_block list al)
      else Inr 0)"

section \<open>Regular expressions\<close>

text \<open>
  The regular expressions of the source use literals, \<open>.\<close>, \<open>\d\<close>, \<open>\s\<close>, the anchors,
  sequence, alternation, the greedy and the lazy star, and numbered capture groups.
\<close>

datatype re =
    RChar char
  | RDot
  | RDigit
  | RSpace
  | RBol
  | REol
  | REmpty
  | RSeq re re
  | RAlt re re
  | RStar re
  | RLazy re
  | RGroup nat re

text \<open>\<open>\d\<close> is 0 to 9.\<close>

definition is_digit :: "char \<Rightarrow> bool" where
  "is_digit c = (48 \<le> (of_char c :: nat) \<and> (of_char c :: nat) \<le> 57)"

text \<open>\<open>.\<close> excludes the line terminators (of the code units below 256: LF and CR).\<close>

definition is_line_terminator :: "char \<Rightarrow> bool" where
  "is_line_terminator c = ((of_char c :: nat) = 10 \<or> (of_char c :: nat) = 13)"

text \<open>\<open>\s\<close>: of the code units below 256, TAB, LF, VT, FF, CR, space and NBSP.\<close>

definition is_space :: "char \<Rightarrow> bool" where
  "is_space c = ((of_char c :: nat) \<in> {9, 10, 11, 12, 13, 32, 160})"

text \<open>
  A matcher state: the input not yet consumed and the captures made so far, the latest
  first.
\<close>

type_synonym mstate = "string \<times> (nat \<times> string) list"

definition step_char :: "(char \<Rightarrow> bool) \<Rightarrow> mstate \<Rightarrow> mstate list" where
  "step_char p st = (case fst st of [] \<Rightarrow> [] | x # xs \<Rightarrow> if p x then [(xs, snd st)] else [])"

text \<open>
  Backtracking matching as a list of successes: all the ways \<open>r\<close> can match at the front of
  the input, in the order in which a backtracking matcher tries them (the greedy star takes
  one more iteration first, the lazy star stops first). \<open>n\<close> is the length of the whole
  subject, for \<open>^\<close>. As in ECMAScript, an iteration of a star that consumes nothing is not
  taken.
\<close>

function (sequential) ms :: "nat \<Rightarrow> re \<Rightarrow> mstate \<Rightarrow> mstate list" where
  "ms n (RChar c) st = step_char (\<lambda>x. x = c) st"
| "ms n RDot st = step_char (\<lambda>x. \<not> is_line_terminator x) st"
| "ms n RDigit st = step_char is_digit st"
| "ms n RSpace st = step_char is_space st"
| "ms n RBol st = (if length (fst st) = n then [st] else [])"
| "ms n REol st = (if fst st = [] then [st] else [])"
| "ms n REmpty st = [st]"
| "ms n (RSeq r1 r2) st = concat (map (ms n r2) (ms n r1 st))"
| "ms n (RAlt r1 r2) st = ms n r1 st @ ms n r2 st"
| "ms n (RStar r) st =
     concat (map (ms n (RStar r))
       (filter (\<lambda>st'. length (fst st') < length (fst st)) (ms n r st))) @ [st]"
| "ms n (RLazy r) st =
     st # concat (map (ms n (RLazy r))
       (filter (\<lambda>st'. length (fst st') < length (fst st)) (ms n r st)))"
| "ms n (RGroup i r) st =
     map (\<lambda>st'. (fst st', (i, take (length (fst st) - length (fst st')) (fst st)) # snd st'))
       (ms n r st)"
  by pat_completeness auto
termination
  by (relation "inv_image (measure size <*lex*> measure length) (\<lambda>(n, r, st). (r, fst st))") auto

declare ms.simps(10,11) [simp del]

text \<open>
  A search without the \<open>g\<close> flag: the leftmost start position at which the expression
  matches, and there the first success. The result is the captures; \<open>None\<close> is \<open>null\<close>.
\<close>

fun search :: "nat \<Rightarrow> re \<Rightarrow> string \<Rightarrow> (nat \<times> string) list option" where
  "search n r [] = (case ms n r ([], []) of st # _ \<Rightarrow> Some (snd st) | [] \<Rightarrow> None)"
| "search n r (x # xs) =
     (case ms n r (x # xs, []) of st # _ \<Rightarrow> Some (snd st) | [] \<Rightarrow> search n r xs)"

text \<open>\<open>s.match(r)\<close>.\<close>

definition exec :: "re \<Rightarrow> string \<Rightarrow> (nat \<times> string) list option" where
  "exec r s = search (length s) r s"

text \<open>\<open>r.test(s)\<close>.\<close>

definition test :: "re \<Rightarrow> string \<Rightarrow> bool" where
  "test r s = (exec r s \<noteq> None)"

text \<open>\<open>m[i]\<close> of a match: \<open>undefined\<close> for a group that took no part.\<close>

definition group :: "(nat \<times> string) list \<Rightarrow> nat \<Rightarrow> string option" where
  "group m i = map_of m i"

text \<open>
  \<open>s.replace(r, rep)\<close> with the \<open>g\<close> flag and a replacement without \<open>$\<close>: every match,
  left to right, is replaced; after an empty match the next code unit is copied.
\<close>

function replace_from :: "nat \<Rightarrow> re \<Rightarrow> string \<Rightarrow> string \<Rightarrow> string" where
  "replace_from n r rep s =
     (case ms n r (s, []) of
        st # _ \<Rightarrow>
          (if length (fst st) < length s then rep @ replace_from n r rep (fst st)
           else (case s of [] \<Rightarrow> rep | x # xs \<Rightarrow> rep @ x # replace_from n r rep xs))
      | [] \<Rightarrow> (case s of [] \<Rightarrow> [] | x # xs \<Rightarrow> x # replace_from n r rep xs))"
  by pat_completeness auto
termination
  by (relation "measure (\<lambda>(n, r, rep, s). length s)") auto

declare replace_from.simps [simp del]

definition replace_all :: "re \<Rightarrow> string \<Rightarrow> string \<Rightarrow> string" where
  "replace_all r rep s = replace_from (length s) r rep s"

text \<open>Abbreviations for writing the expressions down.\<close>

fun seqs :: "re list \<Rightarrow> re" where
  "seqs [] = REmpty"
| "seqs (r # rs) = RSeq r (seqs rs)"

definition lits :: "string \<Rightarrow> re" where
  "lits s = seqs (map RChar s)"

definition many1 :: "re \<Rightarrow> re" where
  "many1 r = RSeq r (RStar r)"

definition optional :: "re \<Rightarrow> re" where
  "optional r = RAlt r REmpty"

text \<open>\<^verbatim>\<open>/^\s*<(.*)>;\s*rel="(.*)"\s*$/\<close> (githubRequest)\<close>

definition link_re :: re where
  "link_re = seqs [RBol, RStar RSpace, RChar CHR ''<'', RGroup 1 (RStar RDot), lits ''>;'',
     RStar RSpace, lits ''rel=\"'', RGroup 2 (RStar RDot), RChar CHR 0x22, RStar RSpace, REol]"

text \<open>\<^verbatim>\<open>/^\d+\.\d+\.\d+(\-insiders)?$/\<close> (fetchVSCodeVersion)\<close>

definition tag_re :: re where
  "tag_re = seqs [RBol, many1 RDigit, RChar CHR ''.'', many1 RDigit, RChar CHR ''.'',
     many1 RDigit, optional (RGroup 1 (lits ''-insiders'')), REol]"

text \<open>\<^verbatim>\<open>/target "(.*?)"/\<close> (getElectron)\<close>

definition target_re :: re where
  "target_re = seqs [lits ''target \"'', RGroup 1 (RLazy RDot), RChar CHR 0x22]"

text \<open>\<^verbatim>\<open>/CHROME_VERSION_STRING "(.*?)"/\<close> (getChromeVersion)\<close>

definition chrome_re :: re where
  "chrome_re = seqs [lits ''CHROME_VERSION_STRING \"'', RGroup 1 (RLazy RDot), RChar CHR 0x22]"

text \<open>\<^verbatim>\<open>/NODE_MAJOR_VERSION (\d+)/\<close> and its two siblings (getNodeVersion)\<close>

definition node_major_re :: re where
  "node_major_re = seqs [lits ''NODE_MAJOR_VERSION '', RGroup 1 (many1 RDigit)]"

definition node_minor_re :: re where
  "node_minor_re = seqs [lits ''NODE_MINOR_VERSION '', RGroup 1 (many1 RDigit)]"

definition node_patch_re :: re where
  "node_patch_re = seqs [lits ''NODE_PATCH_VERSION '', RGroup 1 (many1 RDigit)]"

text \<open>\<^verbatim>\<open>/(T|\..*)/g\<close> (saveToFile)\<close>

definition date_re :: re where
  "date_re = RGroup 1 (RAlt (RChar CHR ''T'') (RSeq (RChar CHR ''.'') (RStar RDot)))"

text \<open>\<^verbatim>\<open>/:\/\/(.*?):443(.*)/\<close> (postTweet)\<close>

definition endpoint_re :: re where
  "endpoint_re = seqs [lits ''://'', RGroup 1 (RLazy RDot), lits '':443'', RGroup 2 (RStar RDot)]"

section \<open>Effects\<close>

text \<open>
  What a run does to the outside, in order: a GET request, a line on the console, a file
  written with a text, a file written with \<open>JSON.stringify\<close> of a list of records, and
  the body written to a POST request for a host and a path.
\<close>

datatype event =
    Get string
  | Log string
  | WriteFile string string
  | WriteJson string "VSCode list"
  | Post string string string

text \<open>
  An asynchronous computation that has settled: the exception that rejected it or its
  value, with the events it caused.
\<close>

type_synonym 'a io = "(error + 'a) \<times> event list"

definition io_return :: "'a \<Rightarrow> 'a io" where
  "io_return x = (Inr x, [])"

definition io_bind :: "'a io \<Rightarrow> ('a \<Rightarrow> 'b io) \<Rightarrow> 'b io" where
  "io_bind m f =
     (case m of
        (Inl e, t) \<Rightarrow> (Inl e, t)
      | (Inr x, t) \<Rightarrow> (case f x of (r, t') \<Rightarrow> (r, t @ t')))"

definition emit :: "event \<Rightarrow> unit io" where
  "emit ev = (Inr (), [ev])"

text \<open>An exception thrown by synchronous code inside an asynchronous function.\<close>

definition lift :: "error + 'a \<Rightarrow> 'a io" where
  "lift r = (r, [])"

section \<open>The environment\<close>

record Tag =
  name :: string

text \<open>The interface \<open>Issue\<close>, with the two fields of \<open>user\<close> flattened.\<close>

record Issue =
  html_url :: string
  title :: string
  issue_body :: string
  created_at :: string
  updated_at :: string
  user_login :: string
  user_html_url :: string

text \<open>What the transform of githubRequest reads of a response.\<close>

record 'a response =
  link :: "string option"
  body :: 'a

text \<open>
  The process environment, the clock and the remote hosts are parameters of a run. A
  request is keyed by its URI; \<open>None\<close> is a rejected request. Bodies have the types the
  source declares for them: a page of tags (\<open>githubRequest<Tag[]>\<close>), the field
  \<open>electronVersion\<close> of the manifest (\<open>as string\<close>, absent when the manifest has none), a
  text, the field \<open>sha\<close> of the submodule, and the \<open>items\<close> of the issue search.
\<close>

record world =
  GITHUB_CLIENT_ID :: "string option"
  GITHUB_CLIENT_SECRET :: "string option"
  TWEET_ENDPOINT :: "string option"
  date_iso :: string
  tag_pages :: "string \<Rightarrow> Tag list response option"
  manifests :: "string \<Rightarrow> string option option"
  texts :: "string \<Rightarrow> string option"
  submodules :: "string \<Rightarrow> string option option"
  issue_searches :: "string \<Rightarrow> Issue list option"

text \<open>A \<open>string|undefined\<close> inside a template literal.\<close>

fun str :: "string option \<Rightarrow> string" where
  "str None = ''undefined''"
| "str (Some s) = s"

text \<open>\<open>await request(...)\<close> against one of the tables of the world.\<close>

definition request :: "(string \<Rightarrow> 'a option) \<Rightarrow> string \<Rightarrow> 'a io" where
  "request table uri =
     (case table uri of None \<Rightarrow> (Inl RequestError, [Get uri]) | Some b \<Rightarrow> (Inr b, [Get uri]))"

section \<open>Paginated fetcher (githubRequest)\<close>

text \<open>The loop over \<open>link.split(',')\<close>: the URI of the first attribute whose rel is next.\<close>

fun next_attr :: "string list \<Rightarrow> string option" where
  "next_attr [] = None"
| "next_attr (attr # attrs) =
     (case exec link_re attr of
        None \<Rightarrow> next_attr attrs
      | Some urlMatches \<Rightarrow>
          if group urlMatches 2 = Some ''next'' then Some (str (group urlMatches 1))
          else next_attr attrs)"

definition next_link :: "string option \<Rightarrow> string option" where
  "next_link header =
     (case header of None \<Rightarrow> None | Some value \<Rightarrow> next_attr (split_on CHR '','' value))"

text \<open>
  The recursion follows the next links and has no bound, so the function is partial:
  \<open>None\<close> is a run that never settles.
\<close>

partial_function (option) githubRequest ::
  "(string \<Rightarrow> 'a response option) \<Rightarrow> string \<Rightarrow> 'a list io option" where
  "githubRequest table uri =
     (case table uri of
        None \<Rightarrow> Some (Inl RequestError, [Get uri])
      | Some resp \<Rightarrow>
          (case next_link (link resp) of
             None \<Rightarrow> Some (Inr [body resp], [Get uri])
           | Some nxt \<Rightarrow>
               Option.bind (githubRequest table nxt) (\<lambda>m.
                 Some (io_bind (emit (Get uri)) (\<lambda>_.
                   io_bind m (\<lambda>res. io_return (body resp # res)))))))"

section \<open>Version resolver (getElectron, getChromeVersion, getNodeVersion)\<close>

definition credentials :: "world \<Rightarrow> string" where
  "credentials w = ''client_id='' @ str (GITHUB_CLIENT_ID w) @ ''&client_secret='' @
     str (GITHUB_CLIENT_SECRET w)"

definition package_uri :: "world \<Rightarrow> string \<Rightarrow> string" where
  "package_uri w vscodeVersion = ''https://raw.githubusercontent.com/Microsoft/vscode/'' @
     vscodeVersion @ ''/package.json?'' @ credentials w"

definition yarnrc_uri :: "world \<Rightarrow> string \<Rightarrow> string" where
  "yarnrc_uri w vscodeVersion = ''https://raw.githubusercontent.com/Microsoft/vscode/'' @
     vscodeVersion @ ''/.yarnrc?'' @ credentials w"

definition getElectron :: "world \<Rightarrow> string \<Rightarrow> string option io" where
  "getElectron w vscodeVersion =
     io_bind (request (manifests w) (package_uri w vscodeVersion)) (\<lambda>electronVersion.
     if \<not> truthy electronVersion
     then io_bind (request (texts w) (yarnrc_uri w vscodeVersion)) (\<lambda>yarnc.
            case exec target_re yarnc of
              None \<Rightarrow> io_return electronVersion
            | Some targetMatches \<Rightarrow> io_return (group targetMatches 1))
     else io_return electronVersion)"

definition chrome_uri :: "world \<Rightarrow> string option \<Rightarrow> string" where
  "chrome_uri w electronVersion = ''https://raw.githubusercontent.com/electron/electron/v'' @
     str electronVersion @ ''/atom/common/chrome_version.h?'' @ credentials w"

definition getChromeVersion :: "world \<Rightarrow> string option \<Rightarrow> string option io" where
  "getChromeVersion w electronVersion =
     io_bind (request (texts w) (chrome_uri w electronVersion)) (\<lambda>chromeVersionHeaderFile.
     case exec chrome_re chromeVersionHeaderFile of
       None \<Rightarrow> io_return None
     | Some versionMatches \<Rightarrow> io_return (group versionMatches 1))"

definition submodule_uri :: "world \<Rightarrow> string option \<Rightarrow> string" where
  "submodule_uri w electronVersion =
     ''https://api.github.com/repos/electron/electron/contents/vendor/node?ref=v'' @
     str electronVersion @ ''&'' @ credentials w"

definition node_version_uri :: "world \<Rightarrow> string \<Rightarrow> string" where
  "node_version_uri w nodeSha = ''https://raw.githubusercontent.com/electron/node/'' @
     nodeSha @ ''/src/node_version.h?'' @ credentials w"

definition getNodeVersion :: "world \<Rightarrow> string option \<Rightarrow> string option io" where
  "getNodeVersion w electronVersion =
     io_bind (request (submodules w) (submodule_uri w electronVersion)) (\<lambda>nodeSha.
     if \<not> truthy nodeSha then io_return None
     else io_bind (request (texts w) (node_version_uri w (str nodeSha)))
       (\<lambda>nodeVersionHeaderFile.
          case (exec node_major_re nodeVersionHeaderFile,
                exec node_minor_re nodeVersionHeaderFile,
                exec node_patch_re nodeVersionHeaderFile) of
            (Some major, Some minor, Some patch) \<Rightarrow>
              io_return (Some (str (group major 1) @ ''.'' @ str (group minor 1) @ ''.'' @
                str (group patch 1)))
          | _ \<Rightarrow> io_return None))"

section \<open>Lineage builder (fetchVSCodeVersion, getVersions)\<close>

definition tags_uri :: "world \<Rightarrow> string" where
  "tags_uri w = ''https://api.github.com/repos/Microsoft/vscode/tags?'' @ credentials w"

text \<open>The two nested \<open>forEach\<close>: the names of all tags of all pages that pass the test.\<close>

definition version_tags :: "Tag list list \<Rightarrow> string list" where
  "version_tags res = filter (test tag_re) (map name (concat res))"

text \<open>The entry point with notification starts the list with the branch name master.\<close>

definition fetchVSCodeVersion :: "world \<Rightarrow> string list io option" where
  "fetchVSCodeVersion w =
     Option.bind (githubRequest (tag_pages w) (tags_uri w)) (\<lambda>m.
       Some (io_bind m (\<lambda>res. io_return (''master'' # version_tags res))))"

text \<open>index.ts starts with the empty list.\<close>

definition index_fetchVSCodeVersion :: "world \<Rightarrow> string list io option" where
  "index_fetchVSCodeVersion w =
     Option.bind (githubRequest (tag_pages w) (tags_uri w)) (\<lambda>m.
       Some (io_bind m (\<lambda>res. io_return (version_tags res))))"

text \<open>
  The body of the loop of getVersions for a version that is not cached. The three calls
  are made one after the other, whatever the first one returns.
\<close>

definition fetch_version :: "world \<Rightarrow> string \<Rightarrow> VSCode io" where
  "fetch_version w version =
     io_bind (emit (Log (''Fetching '' @ version @ ''...''))) (\<lambda>_.
     io_bind (getElectron w version) (\<lambda>electronVersion.
     io_bind (getChromeVersion w electronVersion) (\<lambda>chromeVersion.
     io_bind (getNodeVersion w electronVersion) (\<lambda>nodeVersion.
     io_return \<lparr>vscode = (if version = ''master'' then ''Latest'' else version),
       electron = electronVersion, node = nodeVersion, chrome = chromeVersion\<rparr>))))"

text \<open>In index.ts the record takes the version as it is.\<close>

definition index_fetch_version :: "world \<Rightarrow> string \<Rightarrow> VSCode io" where
  "index_fetch_version w version =
     io_bind (emit (Log (''Fetching '' @ version @ ''...''))) (\<lambda>_.
     io_bind (getElectron w version) (\<lambda>electronVersion.
     io_bind (getChromeVersion w electronVersion) (\<lambda>chromeVersion.
     io_bind (getNodeVersion w electronVersion) (\<lambda>nodeVersion.
     io_return \<lparr>vscode = version,
       electron = electronVersion, node = nodeVersion, chrome = chromeVersion\<rparr>))))"

text \<open>
  The loop of getVersions, with its body as a parameter: a version whose name is among the
  cached names is skipped, any other is fetched and pushed.
\<close>

fun versions_loop ::
  "(string \<Rightarrow> VSCode io) \<Rightarrow> string list \<Rightarrow> string list \<Rightarrow> VSCode list io" where
  "versions_loop fetch cachedVSersions [] = io_return []"
| "versions_loop fetch cachedVSersions (version # rest) =
     (if version \<in> set cachedVSersions then versions_loop fetch cachedVSersions rest
      else io_bind (fetch version) (\<lambda>tag.
           io_bind (versions_loop fetch cachedVSersions rest) (\<lambda>versionList.
           io_return (tag # versionList))))"

text \<open>\<open>VERSION\<close> is the content of version.json, read when the module is loaded.\<close>

definition getVersions :: "world \<Rightarrow> VSCode list \<Rightarrow> VSCode list io option" where
  "getVersions w VERSION =
     Option.bind (fetchVSCodeVersion w) (\<lambda>m.
       Some (io_bind m (\<lambda>vscodeVersions.
         io_bind (versions_loop (fetch_version w) (map vscode VERSION) vscodeVersions)
           (\<lambda>versionList. io_return (versionList @ VERSION)))))"

definition index_getVersions :: "world \<Rightarrow> VSCode list \<Rightarrow> VSCode list io option" where
  "index_getVersions w VERSION =
     Option.bind (index_fetchVSCodeVersion w) (\<lambda>m.
       Some (io_bind m (\<lambda>vscodeVersions.
         io_bind (versions_loop (index_fetch_version w) (map vscode VERSION) vscodeVersions)
           (\<lambda>versionList. io_return (versionList @ VERSION)))))"

section \<open>Report and snapshot writer (getIssues, saveToFile)\<close>

text \<open>A number inside a template literal, for the lengths that occur: decimal digits.\<close>

fun show_nat :: "nat \<Rightarrow> string" where
  "show_nat n =
     (if n < 10 then [char_of (48 + n)] else show_nat (n div 10) @ [char_of (48 + n mod 10)])"

declare show_nat.simps [simp del]

definition issue_uri :: string where
  "issue_uri = ''https://api.github.com/search/issues?q=is%3Aissue+archived%3Afalse+label%3Aelectron-update+is%3Aopen''"

definition issue_row :: "Issue \<Rightarrow> string" where
  "issue_row issue = ''| ['' @ title issue @ '']('' @ html_url issue @ '') | ['' @
     user_login issue @ '']('' @ user_html_url issue @ '') | '' @ created_at issue @ '' | '' @
     updated_at issue @ ''|\<newline>''"

text \<open>The table of getIssues: its heading and one row for each issue.\<close>

definition issue_table :: "Issue list \<Rightarrow> string" where
  "issue_table issueList =
     ''\<newline>\<newline>## Open Issue About Electron Update\<newline>\<newline>| Title | Creator | Create | Update |\<newline>| :---:| :-----: | :----: | :----: |\<newline>'' @
     concat (map issue_row issueList)"

text \<open>getIssues returns its table and appends to the global \<open>tweet\<close>, which is threaded.\<close>

definition getIssues :: "world \<Rightarrow> string \<Rightarrow> (string \<times> string) io" where
  "getIssues w tweet =
     io_bind (request (issue_searches w) issue_uri) (\<lambda>issueList.
     io_return
       (issue_table issueList,
        tweet @ show_nat (length issueList) @ '' open issue(s) about Electron update. ''))"

text \<open>\<open>v || 'n/a'\<close>\<close>

definition or_na :: "string option \<Rightarrow> string" where
  "or_na v = (if truthy v then str v else ''n/a'')"

definition table_row :: "VSCode \<Rightarrow> string" where
  "table_row version = ''\<newline>| '' @ vscode version @ '' | '' @ or_na (electron version) @ '' | '' @
     or_na (node version) @ '' | '' @ or_na (chrome version) @ '' |''"

definition table_head :: string where
  "table_head = ''| VS Code | Electron | Node | Chrome |\<newline>|:-------:|:--------:|:----:|:------:|''"

text \<open>The switch on alertLevel: what is appended to the report and to \<open>tweet\<close>.\<close>

definition banner :: "nat \<Rightarrow> string \<times> string" where
  "banner al =
     (if al = 0 then
        (''```diff\<newline>++ No change in recent release. ++\<newline>```\<newline>\<newline>'',
         ''No change in recent release. '')
      else if al = 1 then
        (''```diff\<newline>@@ Notice: Change in current release. @@\<newline>```\<newline>\<newline>'',
         ''Notice: Change in current release. '')
      else if al = 2 then
        (''```diff\<newline>-- Warning! Change in the next release. --\<newline>```\<newline>\<newline>'',
         ''Warning! Change in the next release. '')
      else ([], []))"

text \<open>\<open>list.shift()\<close>: the list without its first element, the empty list unchanged.\<close>

fun shift :: "'a list \<Rightarrow> 'a list" where
  "shift [] = []"
| "shift (x # xs) = xs"

text \<open>
  The report of saveToFile before the table of issues is appended: the title, the banner of
  the alert level, the time with \<open>T\<close> and the fraction replaced, and the table of the
  lineage.
\<close>

definition report :: "world \<Rightarrow> nat \<Rightarrow> VSCode list \<Rightarrow> string" where
  "report w al list =
     ''# VSCode Version Watcher\<newline>\<newline>Follow on Twitter [@VscodeW](https://twitter.com/VscodeW)!\<newline>\<newline>'' @
     fst (banner al) @
     ''Last update: '' @ replace_all date_re '' '' (date_iso w) @ ''GMT\<newline>\<newline>'' @
     table_head @ concat (map table_row list)"

text \<open>
  saveToFile of the entry point with notification. The classifier runs first, so an
  exception there leaves both files unwritten; so does a rejected issue search. The result
  is the new value of \<open>tweet\<close>.
\<close>

definition saveToFile :: "world \<Rightarrow> string \<Rightarrow> VSCode list \<Rightarrow> string io" where
  "saveToFile w tweet list =
     io_bind (lift (alertLevel list)) (\<lambda>al.
     io_bind (getIssues w (tweet @ snd (banner al))) (\<lambda>(issues, tweet').
     io_bind (emit (WriteFile ''README.md'' (report w al list @ issues))) (\<lambda>_.
     io_bind (emit (WriteJson ''version.json'' (shift list))) (\<lambda>_.
     io_return tweet'))))"

text \<open>saveToFile of index.ts: the table alone, and the whole list as the snapshot.\<close>

definition index_saveToFile :: "VSCode list \<Rightarrow> unit io" where
  "index_saveToFile list =
     io_bind (emit (WriteFile ''README.md'' (table_head @ concat (map table_row list)))) (\<lambda>_.
     emit (WriteJson ''version.json'' list))"

section \<open>Notification and the entry points (postTweet, start)\<close>

text \<open>
  postTweet up to its return. The callback that logs the publication runs, if at all, when
  a response arrives, after start has finished; it is not part of the model.
\<close>

definition postTweet :: "world \<Rightarrow> string \<Rightarrow> unit io" where
  "postTweet w tweet =
     (if \<not> truthy (TWEET_ENDPOINT w) then emit (Log ''No tweet endpoint found.'')
      else (case exec endpoint_re (str (TWEET_ENDPOINT w)) of
              None \<Rightarrow> emit (Log ''Tweet endpoint does not match the rule.'')
            | Some tweetEndpointMatches \<Rightarrow>
                emit (Post (str (group tweetEndpointMatches 1))
                  (str (group tweetEndpointMatches 2)) tweet)))"

definition start :: "world \<Rightarrow> VSCode list \<Rightarrow> unit io option" where
  "start w VERSION =
     Option.bind (getVersions w VERSION) (\<lambda>m.
       Some (io_bind m (\<lambda>list.
         io_bind (saveToFile w ''#VSCodeWatcher '' list) (\<lambda>tweet.
         io_bind (postTweet w (tweet @
           ''https://github.com/Sneezry/vscode-version-watcher#vscode-version-watcher'')) (\<lambda>_.
         emit (Log ''Finished!''))))))"

definition index_start :: "world \<Rightarrow> VSCode list \<Rightarrow> unit io option" where
  "index_start w VERSION =
     Option.bind (index_getVersions w VERSION) (\<lambda>m.
       Some (io_bind m (\<lambda>list.
         io_bind (index_saveToFile list) (\<lambda>_.
         emit (Log ''Finished!'')))))"

section \<open>Vocabulary of the statements\<close>

text \<open>The \<open>i\<close>-th dot-separated component of a version string, if there is one.\<close>

definition component :: "string \<Rightarrow> nat \<Rightarrow> string option" where
  "component v i = index (split_on CHR ''.'' v) i"

text \<open>
  The specification's reading of a changed field: the first components differ, or the
  second components differ and both are present.
\<close>

definition spec_changed :: "string \<Rightarrow> string \<Rightarrow> bool" where
  "spec_changed a b =
     (component a 0 \<noteq> component b 0 \<or>
      (component a 1 \<noteq> None \<and> component b 1 \<noteq> None \<and> component a 1 \<noteq> component b 1))"

text \<open>
  The conditions of the classifier on the fields of two entries: the one of the electron
  and node fields and the one of the chrome field.
\<close>

fun version_gt2 :: "string option \<Rightarrow> string option \<Rightarrow> bool" where
  "version_gt2 (Some x) (Some y) = major_minor_gt (split_on CHR ''.'' x) (split_on CHR ''.'' y)"
| "version_gt2 _ _ = False"

fun version_gt1 :: "string option \<Rightarrow> string option \<Rightarrow> bool" where
  "version_gt1 (Some x) (Some y) = major_gt (split_on CHR ''.'' x) (split_on CHR ''.'' y)"
| "version_gt1 _ _ = False"

definition any_field_gt :: "VSCode \<Rightarrow> VSCode \<Rightarrow> bool" where
  "any_field_gt a b =
     (version_gt2 (electron a) (electron b) \<or> version_gt2 (node a) (node b) \<or>
      version_gt1 (chrome a) (chrome b))"

definition fields_defined :: "VSCode \<Rightarrow> bool" where
  "fields_defined a = (electron a \<noteq> None \<and> node a \<noteq> None \<and> chrome a \<noteq> None)"









text \<open>
  The specification's shape of a release tag: three non-empty runs of digits separated by
  dots, optionally followed by \<open>-insiders\<close>, and nothing else.
\<close>

definition digits1 :: "string \<Rightarrow> bool" where
  "digits1 a = (a \<noteq> [] \<and> list_all is_digit a)"

definition version_shape :: "string \<Rightarrow> bool" where
  "version_shape s = (\<exists>a b c. digits1 a \<and> digits1 b \<and> digits1 c \<and>
     (s = a @ ''.'' @ b @ ''.'' @ c \<or> s = a @ ''.'' @ b @ ''.'' @ c @ ''-insiders''))"

text \<open>
  A finite chain of pages from \<open>uri\<close>: each page is the response at its URI, each page but
  the last names the URI of the following one as its next link, and the last has no next
  link.
\<close>

fun chain ::
  "(string \<Rightarrow> 'a response option) \<Rightarrow> string \<Rightarrow> (string \<times> 'a response) list \<Rightarrow> bool" where
  "chain table uri [] = False"
| "chain table uri (p # ps) =
     (fst p = uri \<and> table uri = Some (snd p) \<and>
      (case next_link (link (snd p)) of None \<Rightarrow> ps = [] | Some nxt \<Rightarrow> chain table nxt ps))"

text \<open>The lists written to version.json in a trace, in order.\<close>

fun snapshots :: "event list \<Rightarrow> VSCode list list" where
  "snapshots [] = []"
| "snapshots (WriteJson f l # tr) = (if f = ''version.json'' then l # snapshots tr else snapshots tr)"
| "snapshots (ev # tr) = snapshots tr"

text \<open>The events other than console lines and the notification.\<close>

fun request_or_write :: "event \<Rightarrow> bool" where
  "request_or_write (Get uri) = True"
| "request_or_write (WriteFile f text) = True"
| "request_or_write (WriteJson f l) = True"
| "request_or_write ev = False"

text \<open>What a computation is seen to do apart from console lines and the notification.\<close>

definition observed :: "'a io \<Rightarrow> (error + 'a) \<times> event list" where
  "observed m = (fst m, filter request_or_write (snd m))"

section \<open>Example inputs\<close>

text \<open>
  A world in which the tag list has one page, release 1.20.0 resolves to electron 1.7.9,
  node 7.9.0 and chrome 58.0.3029.110, the branch master has neither an electron version
  in its manifest nor a target line in its build configuration, and every other request
  is rejected.
\<close>

definition example_world :: world where
  "example_world = \<lparr>
     GITHUB_CLIENT_ID = Some ''abc'',
     GITHUB_CLIENT_SECRET = Some ''xyz'',
     TWEET_ENDPOINT = Some ''https://example.org:443/hook'',
     date_iso = ''2018-05-01T12:34:56.789Z'',
     tag_pages = (\<lambda>uri.
       if uri = ''https://api.github.com/repos/Microsoft/vscode/tags?client_id=abc&client_secret=xyz''
       then Some \<lparr>link = None, body = [\<lparr>name = ''1.20.0''\<rparr>, \<lparr>name = ''translation/20180122.01''\<rparr>]\<rparr>
       else None),
     manifests = (\<lambda>uri.
       if uri = ''https://raw.githubusercontent.com/Microsoft/vscode/master/package.json?client_id=abc&client_secret=xyz''
       then Some None
       else if uri = ''https://raw.githubusercontent.com/Microsoft/vscode/1.20.0/package.json?client_id=abc&client_secret=xyz''
       then Some (Some ''1.7.9'')
       else None),
     texts = (\<lambda>uri.
       if uri = ''https://raw.githubusercontent.com/Microsoft/vscode/master/.yarnrc?client_id=abc&client_secret=xyz''
       then Some ''runtime \"electron\"''
       else if uri = ''https://raw.githubusercontent.com/electron/electron/v1.7.9/atom/common/chrome_version.h?client_id=abc&client_secret=xyz''
       then Some ''#define CHROME_VERSION_STRING \"58.0.3029.110\"''
       else if uri = ''https://raw.githubusercontent.com/electron/node/d0c5d3a/src/node_version.h?client_id=abc&client_secret=xyz''
       then Some ''NODE_MAJOR_VERSION 7\<newline>NODE_MINOR_VERSION 9\<newline>NODE_PATCH_VERSION 0''
       else None),
     submodules = (\<lambda>uri.
       if uri = ''https://api.github.com/repos/electron/electron/contents/vendor/node?ref=v1.7.9&client_id=abc&client_secret=xyz''
       then Some (Some ''d0c5d3a'')
       else None),
     issue_searches = (\<lambda>uri.
       if uri = issue_uri
       then Some [\<lparr>html_url = ''https://github.com/Microsoft/vscode/issues/1'', title = ''Electron 2.0'',
         issue_body = ''Update'', created_at = ''2018-04-01T00:00:00Z'', updated_at = ''2018-04-02T00:00:00Z'',
         user_login = ''octocat'', user_html_url = ''https://github.com/octocat''\<rparr>]
       else None)\<rparr>"

text \<open>Three pages of a tag list, linked the way the API links them.\<close>

definition three_pages :: "string \<Rightarrow> string response option" where
  "three_pages uri =
     (if uri = ''https://h/tags'' then
        Some \<lparr>link = Some ''<https://h/tags?page=2>; rel=\"next\", <https://h/tags?page=3>; rel=\"last\"'',
          body = ''one''\<rparr>
      else if uri = ''https://h/tags?page=2'' then
        Some \<lparr>link = Some ''<https://h/tags?page=1>; rel=\"prev\", <https://h/tags?page=3>; rel=\"next\", <https://h/tags?page=3>; rel=\"last\", <https://h/tags?page=1>; rel=\"first\"'',
          body = ''two''\<rparr>
      else if uri = ''https://h/tags?page=3'' then
        Some \<lparr>link = Some ''<https://h/tags?page=2>; rel=\"prev\", <https://h/tags?page=1>; rel=\"first\"'',
          body = ''three''\<rparr>
      else None)"

declare githubRequest.simps [code]

section \<open>Severity classifier: comparisons\<close>

lemma compare_versions_defined:
  assumes "fields_defined a" and "fields_defined b"
  shows "compare_versions a b level al = Inr (if any_field_gt a b then level else al)"
  using assms
  by (auto simp: fields_defined_def compare_versions_def andThen_def split_version_def
      any_field_gt_def Let_def)

lemma compare_versions_undefined:
  assumes "\<not> fields_defined a \<or> \<not> fields_defined b"
  shows "compare_versions a b level al = Inl TypeError"
  using assms
  by (auto simp: fields_defined_def compare_versions_def andThen_def split_version_def
      Let_def split: option.splits)

lemma compare_versions_level:
  "compare_versions a b level al = Inr r \<Longrightarrow> r = level \<or> r = al"
  by (cases "fields_defined a \<and> fields_defined b")
     (auto simp: compare_versions_defined compare_versions_undefined split: if_splits)














section \<open>Severity classifier: the alert level\<close>

lemma alertLevel_defined:
  assumes "list_all fields_defined (take 3 l)"
  shows "alertLevel l =
     Inr (if 2 \<le> length l \<and> truthy (electron (l ! 0)) \<and> truthy (electron (l ! 1)) \<and>
             any_field_gt (l ! 0) (l ! 1) then 2
          else if 3 \<le> length l \<and> any_field_gt (l ! 1) (l ! 2) then 1
          else 0)"
proof (cases "length l \<le> 1")
  case True
  then show ?thesis by (simp add: alertLevel_def)
next
  case False
  have d: "fields_defined (l ! i)" if "i < 3" "i < length l" for i
    using assms that by (simp add: list_all_length)
  from False have len: "0 < length l" "1 < length l"
    by (cases l; simp)+
  have d0: "fields_defined (l ! 0)" and d1: "fields_defined (l ! 1)"
    using d [OF _ len(1)] d [OF _ len(2)] by simp_all
  have d2: "fields_defined (l ! 2)" if "2 < length l"
    using that d [of 2] by auto
  have c01: "compare_versions (l ! 0) (l ! 1) 2 0 =
      Inr (if any_field_gt (l ! 0) (l ! 1) then 2 else 0)"
    by (rule compare_versions_defined [OF d0 d1])
  have c12: "compare_versions (l ! 1) (l ! 2) 1 0 =
      Inr (if any_field_gt (l ! 1) (l ! 2) then 1 else 0)" if "2 < length l"
    by (rule compare_versions_defined [OF d1 d2 [OF that]])
  show ?thesis
    using False c01 c12
    by (auto simp: alertLevel_def warning_block_def notice_block_def andThen_def)
qed


lemma compare_versions_Inr:
  "compare_versions a b level al = Inr r \<Longrightarrow> r = (if any_field_gt a b then level else al)"
  by (cases "fields_defined a \<and> fields_defined b")
     (auto simp: compare_versions_defined compare_versions_undefined)

text \<open>
  C2. A lineage of fewer than two entries gets alert level 0. Whenever the classifier
  returns a level, the level is 2 (warning) when the first two entries both have a non-empty
  electron version and the comparisons of entry 0 with entry 1 set the level; otherwise 1
  (notice) when there are at least three entries and the comparisons of entry 1 with entry 2
  set the level; otherwise 0. It returns a level whenever the fields of the first three
  entries are present.
\<close>

theorem alertLevel_cases:
  "(length l < 2 \<longrightarrow> alertLevel l = Inr 0) \<and>
   (alertLevel l = Inr r \<longrightarrow>
      r = (if 2 \<le> length l \<and> truthy (electron (l ! 0)) \<and> truthy (electron (l ! 1)) \<and>
              any_field_gt (l ! 0) (l ! 1) then 2
           else if 3 \<le> length l \<and> any_field_gt (l ! 1) (l ! 2) then 1
           else 0)) \<and>
   (list_all fields_defined (take 3 l) \<longrightarrow> (\<exists>r. alertLevel l = Inr r))"
proof (intro conjI impI)
  assume "length l < 2"
  then show "alertLevel l = Inr 0" by (simp add: alertLevel_def)
next
  assume a: "alertLevel l = Inr r"
  show "r = (if 2 \<le> length l \<and> truthy (electron (l ! 0)) \<and> truthy (electron (l ! 1)) \<and>
              any_field_gt (l ! 0) (l ! 1) then 2
           else if 3 \<le> length l \<and> any_field_gt (l ! 1) (l ! 2) then 1
           else 0)"
  proof (cases "length l \<le> 1")
    case True
    with a show ?thesis by (simp add: alertLevel_def)
  next
    case False
    with a obtain al where w: "warning_block l = Inr al" and n: "notice_block l al = Inr r"
      by (cases "warning_block l") (simp_all add: alertLevel_def andThen_def)
    have al: "al = (if truthy (electron (l ! 0)) \<and> truthy (electron (l ! 1)) \<and>
        any_field_gt (l ! 0) (l ! 1) then 2 else 0)"
      using w compare_versions_Inr [of "l ! 0" "l ! 1" 2 0 al]
      by (auto simp: warning_block_def split: if_splits)
    have "r = (if 2 < length l \<and> al = 0 then (if any_field_gt (l ! 1) (l ! 2) then 1 else 0) else al)"
      using n compare_versions_Inr [of "l ! 1" "l ! 2" 1 al r]
      by (auto simp: notice_block_def split: if_splits)
    with al False show ?thesis by auto
  qed
next
  assume "list_all fields_defined (take 3 l)"
  then show "\<exists>r. alertLevel l = Inr r"
    using alertLevel_defined [of l] by simp
qed


theorem alertLevel_cases_witness:
  "alertLevel
     [\<lparr>vscode = ''1.20.0'', electron = Some ''1.7.9'', node = None, chrome = None\<rparr>] = Inr 0 \<and>
   alertLevel
     [\<lparr>vscode = ''Latest'', electron = None, node = Some ''9.0.0'',
        chrome = Some ''62.0.3202.94''\<rparr>,
      \<lparr>vscode = ''1.21.0'', electron = Some ''2.0.0'', node = Some ''8.9.3'',
        chrome = Some ''61.0.3163.100''\<rparr>,
      \<lparr>vscode = ''1.20.0'', electron = Some ''1.7.9'', node = Some ''7.9.0'',
        chrome = Some ''58.0.3029.110''\<rparr>] = Inr 1 \<and>
   any_field_gt
     \<lparr>vscode = ''1.21.0'', electron = Some ''2.0.0'', node = Some ''8.9.3'',
        chrome = Some ''61.0.3163.100''\<rparr>
     \<lparr>vscode = ''1.20.0'', electron = Some ''1.7.9'', node = Some ''7.9.0'',
        chrome = Some ''58.0.3029.110''\<rparr>"
proof -
  let ?s = "[\<lparr>vscode = ''1.20.0'', electron = Some ''1.7.9'', node = None, chrome = None\<rparr>]"
  let ?l = "[\<lparr>vscode = ''Latest'', electron = None, node = Some ''9.0.0'',
        chrome = Some ''62.0.3202.94''\<rparr>,
      \<lparr>vscode = ''1.21.0'', electron = Some ''2.0.0'', node = Some ''8.9.3'',
        chrome = Some ''61.0.3163.100''\<rparr>,
      \<lparr>vscode = ''1.20.0'', electron = Some ''1.7.9'', node = Some ''7.9.0'',
        chrome = Some ''58.0.3029.110''\<rparr>]"
  have s: "alertLevel ?s = Inr 0"
    by (rule alertLevel_cases [of ?s, THEN conjunct1, THEN mp]) simp
  have r: "alertLevel ?l = Inr 1"
    by (simp add: alertLevel_def warning_block_def notice_block_def compare_versions_def
        andThen_def split_version_def major_minor_gt_def major_gt_def)
  note eq = alertLevel_cases [of ?l 1, THEN conjunct2, THEN conjunct1, THEN mp, OF r]
  have "any_field_gt (?l ! 1) (?l ! 2)"
  proof (rule ccontr)
    assume "\<not> any_field_gt (?l ! 1) (?l ! 2)"
    with eq show False by simp
  qed
  with s r show ?thesis by simp
qed

text \<open>
  The claim as it is written fails on a lineage whose newest entry has no electron version:
  the node versions 9.0.0 and 8.9.3 differ, and are greater in the newer entry, but the first
  block is skipped and the alert level is 0.
\<close>

theorem unguarded_warning_counterexample:
  "spec_changed ''9.0.0'' ''8.9.3'' \<and> version_gt2 (Some ''9.0.0'') (Some ''8.9.3'') \<and>
   alertLevel
     [\<lparr>vscode = ''Latest'', electron = None, node = Some ''9.0.0'',
        chrome = Some ''61.0.3163.100''\<rparr>,
      \<lparr>vscode = ''1.20.0'', electron = Some ''1.7.9'', node = Some ''8.9.3'',
        chrome = Some ''61.0.3163.100''\<rparr>] = Inr 0"
  by (simp add: spec_changed_def component_def major_minor_gt_def alertLevel_def
      warning_block_def notice_block_def andThen_def)

text \<open>
  C10. In a lineage of at least two entries, alert level 2 is reached only when the first
  two entries both have a non-empty electron version; when one of them has none, the first
  block leaves the level at 0 whatever the node and chrome fields are, and the result is
  that of the second block. Whenever the lineage has at least three entries and the first
  block left the level at 0, the second block compares entries 1 and 2 without any guard,
  so the result is that of the comparison (an exception included).
\<close>

theorem warning_needs_electron:
  assumes "2 \<le> length l"
  shows "(alertLevel l = Inr 2 \<longrightarrow> truthy (electron (l ! 0)) \<and> truthy (electron (l ! 1))) \<and>
         (\<not> (truthy (electron (l ! 0)) \<and> truthy (electron (l ! 1))) \<longrightarrow>
            warning_block l = Inr 0 \<and> alertLevel l = notice_block l 0) \<and>
         (3 \<le> length l \<and> warning_block l = Inr 0 \<longrightarrow>
            alertLevel l = compare_versions (l ! 1) (l ! 2) 1 0)"
proof -
  have n2: "notice_block l 0 \<noteq> Inr 2"
    by (auto simp: notice_block_def dest: compare_versions_level)
  show ?thesis
    using assms n2
    by (auto simp: alertLevel_def warning_block_def andThen_def notice_block_def)
qed


theorem warning_needs_electron_witness:
  "2 \<le> length
     [\<lparr>vscode = ''Latest'', electron = None, node = Some ''9.0.0'',
        chrome = Some ''62.0.3202.94''\<rparr>,
      \<lparr>vscode = ''1.21.0'', electron = Some ''2.0.0'', node = Some ''8.9.3'',
        chrome = Some ''61.0.3163.100''\<rparr>,
      \<lparr>vscode = ''1.20.0'', electron = Some ''1.7.9'', node = Some ''7.9.0'',
        chrome = Some ''58.0.3029.110''\<rparr>] \<and>
   alertLevel
     [\<lparr>vscode = ''Latest'', electron = None, node = Some ''9.0.0'',
        chrome = Some ''62.0.3202.94''\<rparr>,
      \<lparr>vscode = ''1.21.0'', electron = Some ''2.0.0'', node = Some ''8.9.3'',
        chrome = Some ''61.0.3163.100''\<rparr>,
      \<lparr>vscode = ''1.20.0'', electron = Some ''1.7.9'', node = Some ''7.9.0'',
        chrome = Some ''58.0.3029.110''\<rparr>] = Inr 1"
proof -
  let ?l = "[\<lparr>vscode = ''Latest'', electron = None, node = Some ''9.0.0'',
        chrome = Some ''62.0.3202.94''\<rparr>,
      \<lparr>vscode = ''1.21.0'', electron = Some ''2.0.0'', node = Some ''8.9.3'',
        chrome = Some ''61.0.3163.100''\<rparr>,
      \<lparr>vscode = ''1.20.0'', electron = Some ''1.7.9'', node = Some ''7.9.0'',
        chrome = Some ''58.0.3029.110''\<rparr>]"
  have len: "2 \<le> length ?l" by simp
  have e: "\<not> (truthy (electron (?l ! 0)) \<and> truthy (electron (?l ! 1)))" by simp
  from warning_needs_electron [OF len] e have "alertLevel ?l = notice_block ?l 0"
    by blast
  also have "\<dots> = Inr 1"
    by (simp add: notice_block_def compare_versions_def andThen_def split_version_def
        major_minor_gt_def major_gt_def)
  finally show ?thesis using len by simp
qed

section \<open>Severity classifier: absent fields\<close>

text \<open>
  C3. A lineage whose newest entry has an electron version but no node version, as
  getNodeVersion produces it when the submodule lookup fails: the report row shows n/a, but
  the classifier throws a TypeError and saveToFile writes nothing.
\<close>

theorem absent_node_throws:
  "table_row \<lparr>vscode = ''Latest'', electron = Some ''2.0.0'', node = None,
       chrome = Some ''61.0.3163.100''\<rparr> =
     ''\<newline>| Latest | 2.0.0 | n/a | 61.0.3163.100 |'' \<and>
   alertLevel
     [\<lparr>vscode = ''Latest'', electron = Some ''2.0.0'', node = None,
        chrome = Some ''61.0.3163.100''\<rparr>,
      \<lparr>vscode = ''1.20.0'', electron = Some ''1.7.9'', node = Some ''7.9.0'',
        chrome = Some ''58.0.3029.110''\<rparr>] = Inl TypeError \<and>
   saveToFile w tweet
     [\<lparr>vscode = ''Latest'', electron = Some ''2.0.0'', node = None,
        chrome = Some ''61.0.3163.100''\<rparr>,
      \<lparr>vscode = ''1.20.0'', electron = Some ''1.7.9'', node = Some ''7.9.0'',
        chrome = Some ''58.0.3029.110''\<rparr>] = (Inl TypeError, [])"
  by (simp add: table_row_def or_na_def saveToFile_def lift_def io_bind_def alertLevel_def
      warning_block_def compare_versions_def andThen_def split_version_def)

section \<open>Lineage builder: the filter on tag names\<close>

lemma ms_star_digit:
  "set (ms n (RStar RDigit) (s, cs)) = {(s', cs) | s'. \<exists>a. list_all is_digit a \<and> s = a @ s'}"
proof (induction s)
  case Nil
  show ?case by (subst ms.simps) (auto simp: step_char_def)
next
  case (Cons x xs)
  show ?case
  proof (cases "is_digit x")
    case True
    have "set (ms n (RStar RDigit) (x # xs, cs)) = set (ms n (RStar RDigit) (xs, cs)) \<union> {(x # xs, cs)}"
      using True by (subst ms.simps) (simp add: step_char_def)
    also have "\<dots> = {(s', cs) | s'. \<exists>a. list_all is_digit a \<and> x # xs = a @ s'}"
      using True unfolding Cons.IH
      by (auto simp: Cons_eq_append_conv)
    finally show ?thesis .
  next
    case False
    have "set (ms n (RStar RDigit) (x # xs, cs)) = {(x # xs, cs)}"
      using False by (subst ms.simps) (simp add: step_char_def)
    also have "\<dots> = {(s', cs) | s'. \<exists>a. list_all is_digit a \<and> x # xs = a @ s'}"
      using False by (auto simp: Cons_eq_append_conv)
    finally show ?thesis .
  qed
qed

lemma ms_many1_digit:
  "set (ms n (many1 RDigit) (s, cs)) = {(s', cs) | s'. \<exists>a. digits1 a \<and> s = a @ s'}"
proof (cases s)
  case Nil
  then show ?thesis by (simp add: many1_def step_char_def digits1_def)
next
  case (Cons x xs)
  show ?thesis
  proof (cases "is_digit x")
    case True
    then have "set (ms n (many1 RDigit) (s, cs)) = set (ms n (RStar RDigit) (xs, cs))"
      using Cons by (simp add: many1_def step_char_def)
    also have "\<dots> = {(s', cs) | s'. \<exists>a. digits1 a \<and> s = a @ s'}"
      using True Cons unfolding ms_star_digit digits1_def
      by (auto simp: Cons_eq_append_conv)
    finally show ?thesis .
  next
    case False
    then show ?thesis using Cons
      by (auto simp: many1_def step_char_def digits1_def Cons_eq_append_conv)
  qed
qed


lemma ms_char_set:
  "set (ms n (RChar c) (s, cs)) = {(s', cs) | s'. s = c # s'}"
  by (cases s) (auto simp: step_char_def)

lemma ms_lits_set:
  "set (ms n (lits lit) (s, cs)) = {(s', cs) | s'. s = lit @ s'}"
proof (induction lit arbitrary: s)
  case Nil
  show ?case by (simp add: lits_def)
next
  case (Cons c lit)
  have "set (ms n (lits (c # lit)) (s, cs)) =
      (\<Union>st' \<in> set (ms n (RChar c) (s, cs)). set (ms n (lits lit) st'))"
    by (simp add: lits_def)
  also have "\<dots> = {(s', cs) | s'. s = (c # lit) @ s'}"
    unfolding ms_char_set using Cons.IH by auto
  finally show ?case .
qed

lemma ms_seq_nonempty:
  "ms n (RSeq r1 r2) st \<noteq> [] \<longleftrightarrow> (\<exists>st' \<in> set (ms n r1 st). ms n r2 st' \<noteq> [])"
  by simp

lemma ms_tail_nonempty:
  "ms n (seqs [optional (RGroup 1 (lits ''-insiders'')), REol]) (s, cs) \<noteq> [] \<longleftrightarrow>
     s = ''-insiders'' \<or> s = []"
proof -
  have "ms n (seqs [optional (RGroup 1 (lits ''-insiders'')), REol]) (s, cs) \<noteq> [] \<longleftrightarrow>
      (\<exists>st' \<in> set (ms n (RGroup 1 (lits ''-insiders'')) (s, cs)) \<union> {(s, cs)}. fst st' = [])"
    by (auto simp add: optional_def simp del: ms.simps(12))
  also have "\<dots> \<longleftrightarrow> (\<exists>st' \<in> set (ms n (lits ''-insiders'') (s, cs)). fst st' = []) \<or> s = []"
    by auto
  also have "\<dots> \<longleftrightarrow> s = ''-insiders'' \<or> s = []"
    unfolding ms_lits_set by auto
  finally show ?thesis .
qed



lemma ex_many1_digit:
  "(\<exists>st' \<in> set (ms n (many1 RDigit) (s, cs)). P st') \<longleftrightarrow>
     (\<exists>a s1. digits1 a \<and> s = a @ s1 \<and> P (s1, cs))"
  unfolding ms_many1_digit by auto

lemma ex_char:
  "(\<exists>st' \<in> set (ms n (RChar c) (s, cs)). P st') \<longleftrightarrow> (\<exists>s1. s = c # s1 \<and> P (s1, cs))"
  unfolding ms_char_set by auto

lemma ms_bol_nonempty:
  "ms n (RSeq RBol r) (s, cs) \<noteq> [] \<longleftrightarrow> length s = n \<and> ms n r (s, cs) \<noteq> []"
  by simp

lemma nested_shape:
  fixes P :: "char list \<Rightarrow> bool"
  shows "(\<exists>a s1. P a \<and> s = a @ s1 \<and>
        (\<exists>s2. s1 = CHR ''.'' # s2 \<and>
          (\<exists>b s3. P b \<and> s2 = b @ s3 \<and>
            (\<exists>s4. s3 = CHR ''.'' # s4 \<and>
              (\<exists>c s5. P c \<and> s4 = c @ s5 \<and> (s5 = ''-insiders'' \<or> s5 = []))))))
   \<longleftrightarrow> (\<exists>a b c. P a \<and> P b \<and> P c \<and>
     (s = a @ ''.'' @ b @ ''.'' @ c \<or> s = a @ ''.'' @ b @ ''.'' @ c @ ''-insiders''))"
  (is "?L \<longleftrightarrow> ?R")
proof
  assume ?L
  then obtain a b c s5 where "P a" "P b" "P c" "s = a @ CHR ''.'' # b @ CHR ''.'' # c @ s5"
    "s5 = ''-insiders'' \<or> s5 = []"
    by blast
  then show ?R
    by (intro exI [of _ a] exI [of _ b] exI [of _ c]) auto
next
  assume ?R
  then obtain a b c s5 where abc: "P a" "P b" "P c" and s: "s = a @ CHR ''.'' # b @ CHR ''.'' # c @ s5"
    and s5: "s5 = ''-insiders'' \<or> s5 = []"
    by auto
  show ?L
    apply (rule exI [of _ a], rule exI [of _ "CHR ''.'' # b @ CHR ''.'' # c @ s5"])
    apply (intro conjI abc s)
    apply (rule exI [of _ "b @ CHR ''.'' # c @ s5"], intro conjI refl)
    apply (rule exI [of _ b], rule exI [of _ "CHR ''.'' # c @ s5"], intro conjI abc refl)
    apply (rule exI [of _ "c @ s5"], intro conjI refl)
    apply (rule exI [of _ c], rule exI [of _ s5], intro conjI abc refl s5)
    done
qed

lemma ms_tag_nonempty:
  "ms (length s) tag_re (s, []) \<noteq> [] \<longleftrightarrow> version_shape s"
proof -
  let ?tail = "seqs [optional (RGroup 1 (lits ''-insiders'')), REol]"
  have tag: "tag_re = RSeq RBol (RSeq (many1 RDigit) (RSeq (RChar CHR ''.'')
      (RSeq (many1 RDigit) (RSeq (RChar CHR ''.'') (RSeq (many1 RDigit) ?tail)))))"
    by (simp add: tag_re_def)
  have "ms (length s) tag_re (s, []) \<noteq> [] \<longleftrightarrow>
      (\<exists>a s1. digits1 a \<and> s = a @ s1 \<and>
        (\<exists>s2. s1 = CHR ''.'' # s2 \<and>
          (\<exists>b s3. digits1 b \<and> s2 = b @ s3 \<and>
            (\<exists>s4. s3 = CHR ''.'' # s4 \<and>
              (\<exists>c s5. digits1 c \<and> s4 = c @ s5 \<and> (s5 = ''-insiders'' \<or> s5 = []))))))"
    unfolding tag ms_bol_nonempty
    by (simp only: ms_seq_nonempty ex_many1_digit ex_char ms_tail_nonempty simp_thms)
  also have "\<dots> \<longleftrightarrow> version_shape s"
    unfolding version_shape_def by (rule nested_shape)
  finally show ?thesis .
qed


lemma search_bol_short:
  "length t < n \<Longrightarrow> search n (RSeq RBol r) t = None"
  by (induction t) auto

lemma exec_bol:
  "exec (RSeq RBol r) s \<noteq> None \<longleftrightarrow> ms (length s) (RSeq RBol r) (s, []) \<noteq> []"
  by (cases s) (auto simp: exec_def search_bol_short split: list.splits)


lemma test_tag_re: "test tag_re s \<longleftrightarrow> version_shape s"
proof -
  have "tag_re = RSeq RBol (seqs [many1 RDigit, RChar CHR ''.'', many1 RDigit, RChar CHR ''.'',
     many1 RDigit, optional (RGroup 1 (lits ''-insiders'')), REol])"
    by (simp add: tag_re_def)
  then have "test tag_re s \<longleftrightarrow> ms (length s) tag_re (s, []) \<noteq> []"
    unfolding test_def using exec_bol by metis
  then show ?thesis by (simp add: ms_tag_nonempty)
qed

text \<open>
  C7. The test of fetchVSCodeVersion accepts a tag name exactly when the name consists of
  three non-empty runs of digits separated by dots, optionally followed by \<open>-insiders\<close>;
  the tags kept are those of all pages with such a name, in order; \<open>v1.0\<close>, \<open>1.0\<close> and
  \<open>abc\<close> are rejected.
\<close>

theorem tag_filter_accepts_versions:
  "(test tag_re s \<longleftrightarrow> version_shape s) \<and>
   version_tags res = filter version_shape (map name (concat res)) \<and>
   \<not> test tag_re ''v1.0'' \<and> \<not> test tag_re ''1.0'' \<and> \<not> test tag_re ''abc''"
proof -
  have "test tag_re = version_shape"
    by (rule ext) (rule test_tag_re)
  moreover have "\<not> test tag_re ''v1.0'' \<and> \<not> test tag_re ''1.0'' \<and> \<not> test tag_re ''abc''"
    by code_simp
  ultimately show ?thesis
    by (simp add: version_tags_def)
qed

theorem tag_filter_accepts_versions_witness:
  "test tag_re ''1.20.0-insiders'' \<and> version_shape ''1.20.0-insiders'' \<and>
   version_tags [[\<lparr>name = ''1.20.0-insiders''\<rparr>, \<lparr>name = ''v1.0''\<rparr>], [\<lparr>name = ''1.19.3''\<rparr>]] =
     [''1.20.0-insiders'', ''1.19.3'']"
proof -
  have t: "test tag_re ''1.20.0-insiders''"
    by code_simp
  have v: "version_tags [[\<lparr>name = ''1.20.0-insiders''\<rparr>, \<lparr>name = ''v1.0''\<rparr>], [\<lparr>name = ''1.19.3''\<rparr>]] =
     [''1.20.0-insiders'', ''1.19.3'']"
    by code_simp
  from tag_filter_accepts_versions [of "''1.20.0-insiders''"] t v show ?thesis
    by simp
qed

section \<open>Paginated fetcher\<close>

lemma githubRequest_chain:
  "chain table uri ps \<Longrightarrow>
   githubRequest table uri = Some (Inr (map (\<lambda>p. body (snd p)) ps), map (\<lambda>p. Get (fst p)) ps)"
proof (induction ps arbitrary: uri)
  case Nil
  then show ?case by simp
next
  case (Cons p ps)
  show ?case
  proof (cases "next_link (link (snd p))")
    case None
    with Cons.prems show ?thesis
      by (subst githubRequest.simps) simp
  next
    case (Some nxt)
    with Cons.prems have "chain table nxt ps" by simp
    from Cons.IH [OF this] Some Cons.prems show ?thesis
      by (subst githubRequest.simps) (simp add: io_bind_def emit_def io_return_def)
  qed
qed

lemma chain_githubRequest:
  assumes "githubRequest table uri = Some y"
  shows "\<forall>bs tr. y = (Inr bs, tr) \<longrightarrow>
     (\<exists>ps. chain table uri ps \<and> bs = map (\<lambda>p. body (snd p)) ps \<and> tr = map (\<lambda>p. Get (fst p)) ps)"
proof -
  let ?Q = "\<lambda>(table :: string \<Rightarrow> 'a response option) uri y. \<forall>bs tr. y = (Inr bs, tr) \<longrightarrow>
     (\<exists>ps. chain table uri ps \<and> bs = map (\<lambda>p. body (snd p)) ps \<and> tr = map (\<lambda>p. Get (fst p)) ps)"
  have "?Q table uri y"
  proof (rule githubRequest.raw_induct [where P = ?Q, OF _ assms])
    fix f and table :: "string \<Rightarrow> 'a response option" and uri y
    assume IH: "\<And>table uri y. f table uri = Some y \<Longrightarrow> ?Q table uri y"
      and eq: "(case table uri of
        None \<Rightarrow> Some (Inl RequestError, [Get uri])
      | Some resp \<Rightarrow>
          (case next_link (link resp) of
             None \<Rightarrow> Some (Inr [body resp], [Get uri])
           | Some nxt \<Rightarrow>
               Option.bind (f table nxt) (\<lambda>m.
                 Some (io_bind (emit (Get uri)) (\<lambda>_.
                   io_bind m (\<lambda>res. io_return (body resp # res))))))) = Some y"
    show "?Q table uri y"
    proof (intro allI impI)
      fix bs tr assume y: "y = (Inr bs, tr)"
      from eq y obtain resp where resp: "table uri = Some resp"
        by (auto split: option.splits)
      show "\<exists>ps. chain table uri ps \<and> bs = map (\<lambda>p. body (snd p)) ps \<and> tr = map (\<lambda>p. Get (fst p)) ps"
      proof (cases "next_link (link resp)")
        case None
        with eq y resp have "bs = [body resp]" "tr = [Get uri]" by auto
        with None resp show ?thesis
          by (intro exI [of _ "[(uri, resp)]"]) simp
      next
        case (Some nxt)
        with eq y resp obtain m where m: "f table nxt = Some m"
          and r: "(Inr bs, tr) = io_bind (emit (Get uri)) (\<lambda>_. io_bind m (\<lambda>res. io_return (body resp # res)))"
          by (auto simp: bind_eq_Some_conv)
        from r obtain bs' tr' where m': "m = (Inr bs', tr')" and bs: "bs = body resp # bs'" and tr: "tr = Get uri # tr'"
          by (cases m; cases "fst m") (auto simp: io_bind_def emit_def io_return_def)
        from IH [OF m] m' obtain ps where "chain table nxt ps" "bs' = map (\<lambda>p. body (snd p)) ps" "tr' = map (\<lambda>p. Get (fst p)) ps"
          by blast
        with Some resp bs tr show ?thesis
          by (intro exI [of _ "(uri, resp) # ps"]) simp
      qed
    qed
  qed
  then show ?thesis .
qed


text \<open>
  C8. githubRequest settles with a list of bodies exactly when the pages reachable from
  the URI by next links form a finite chain that ends in a page without a next link; the
  bodies are then those of the chain in the order of the requests, the page fetched first
  at the head, and one request was made per page.
\<close>

theorem githubRequest_follows_chain:
  "githubRequest table uri = Some (Inr bs, tr) \<longleftrightarrow>
     (\<exists>ps. chain table uri ps \<and> bs = map (\<lambda>p. body (snd p)) ps \<and>
        tr = map (\<lambda>p. Get (fst p)) ps)"
  using githubRequest_chain [of table uri] chain_githubRequest [of table uri "(Inr bs, tr)"]
  by auto

theorem githubRequest_follows_chain_witness:
  "githubRequest three_pages ''https://h/tags'' =
     Some (Inr [''one'', ''two'', ''three''],
       [Get ''https://h/tags'', Get ''https://h/tags?page=2'', Get ''https://h/tags?page=3''])"
proof -
  let ?ps = "[(''https://h/tags'',
        \<lparr>link = Some ''<https://h/tags?page=2>; rel=\"next\", <https://h/tags?page=3>; rel=\"last\"'',
          body = ''one''\<rparr>),
      (''https://h/tags?page=2'',
        \<lparr>link = Some ''<https://h/tags?page=1>; rel=\"prev\", <https://h/tags?page=3>; rel=\"next\", <https://h/tags?page=3>; rel=\"last\", <https://h/tags?page=1>; rel=\"first\"'',
          body = ''two''\<rparr>),
      (''https://h/tags?page=3'',
        \<lparr>link = Some ''<https://h/tags?page=2>; rel=\"prev\", <https://h/tags?page=1>; rel=\"first\"'',
          body = ''three''\<rparr>)]"
  have c: "chain three_pages ''https://h/tags'' ?ps"
    by code_simp
  have "\<exists>ps. chain three_pages ''https://h/tags'' ps \<and>
      [''one'', ''two'', ''three''] = map (\<lambda>p. body (snd p)) ps \<and>
      [Get ''https://h/tags'', Get ''https://h/tags?page=2'', Get ''https://h/tags?page=3''] =
        map (\<lambda>p. Get (fst p)) ps"
    using c by (intro exI [of _ ?ps]) simp
  then show ?thesis
    by (rule githubRequest_follows_chain [THEN iffD2])
qed

section \<open>Version resolver\<close>

lemma io_bind_request:
  "io_bind (request table uri) f =
     (case table uri of
        None \<Rightarrow> (Inl RequestError, [Get uri])
      | Some b \<Rightarrow> (fst (f b), Get uri # snd (f b)))"
  by (simp add: io_bind_def request_def split: option.splits prod.splits)

lemma io_bind_emit: "io_bind (emit ev) f = (fst (f ()), ev # snd (f ()))"
  by (simp add: io_bind_def emit_def split: prod.splits)

lemma io_bind_return: "io_bind (io_return x) f = f x"
  by (simp add: io_bind_def io_return_def split: prod.splits)

lemma io_bind_Inr: "io_bind (Inr x, t) f = (fst (f x), t @ snd (f x))"
  by (simp add: io_bind_def split: prod.splits)

lemma io_bind_Inl: "io_bind (Inl e, t) f = (Inl e, t)"
  by (simp add: io_bind_def)

lemma getElectron_absent:
  assumes "manifests w (package_uri w v) = Some ev" and "\<not> truthy ev"
    and "texts w (yarnrc_uri w v) = Some yarnc" and "exec target_re yarnc = None"
  shows "getElectron w v = (Inr ev, [Get (package_uri w v), Get (yarnrc_uri w v)])"
  using assms by (simp add: getElectron_def io_bind_request io_return_def)

lemma getChromeVersion_requests:
  "\<exists>r tr. getChromeVersion w ev = (r, Get (chrome_uri w ev) # tr)"
  by (cases "texts w (chrome_uri w ev)") (simp_all add: getChromeVersion_def io_bind_request)

text \<open>
  C4. When the manifest has no electron version and the build configuration has no target
  line, getElectron returns the absent value after its two requests, and the loop body goes
  on to request the chrome version header of the tag made of \<open>v\<close> and that absent value.
\<close>

theorem absent_electron_still_fetches:
  assumes "manifests w (package_uri w v) = Some ev" and "\<not> truthy ev"
    and "texts w (yarnrc_uri w v) = Some yarnc" and "exec target_re yarnc = None"
  shows "getElectron w v = (Inr ev, [Get (package_uri w v), Get (yarnrc_uri w v)]) \<and>
    (\<exists>r tr. fetch_version w v =
       (r, [Log (''Fetching '' @ v @ ''...''), Get (package_uri w v), Get (yarnrc_uri w v),
            Get (chrome_uri w ev)] @ tr))"
proof -
  note e = getElectron_absent [OF assms]
  obtain r tr where c: "getChromeVersion w ev = (r, Get (chrome_uri w ev) # tr)"
    using getChromeVersion_requests by blast
  have "\<exists>r' tr'. fetch_version w v =
       (r', [Log (''Fetching '' @ v @ ''...''), Get (package_uri w v), Get (yarnrc_uri w v),
            Get (chrome_uri w ev)] @ tr')"
    by (cases r) (simp_all add: fetch_version_def io_bind_emit e c io_bind_Inr io_bind_Inl)
  with e show ?thesis by simp
qed

lemma example_master:
  "manifests example_world (package_uri example_world ''master'') = Some None \<and>
   texts example_world (yarnrc_uri example_world ''master'') = Some ''runtime \"electron\"'' \<and>
   exec target_re ''runtime \"electron\"'' = None"
  by code_simp

theorem absent_electron_still_fetches_witness:
  "getElectron example_world ''master'' =
     (Inr None, [Get (package_uri example_world ''master''), Get (yarnrc_uri example_world ''master'')]) \<and>
   fetch_version example_world ''master'' =
     (Inl RequestError,
      [Log ''Fetching master...'',
       Get ''https://raw.githubusercontent.com/Microsoft/vscode/master/package.json?client_id=abc&client_secret=xyz'',
       Get ''https://raw.githubusercontent.com/Microsoft/vscode/master/.yarnrc?client_id=abc&client_secret=xyz'',
       Get ''https://raw.githubusercontent.com/electron/electron/vundefined/atom/common/chrome_version.h?client_id=abc&client_secret=xyz''])"
proof -
  have f: "fetch_version example_world ''master'' =
     (Inl RequestError,
      [Log ''Fetching master...'',
       Get ''https://raw.githubusercontent.com/Microsoft/vscode/master/package.json?client_id=abc&client_secret=xyz'',
       Get ''https://raw.githubusercontent.com/Microsoft/vscode/master/.yarnrc?client_id=abc&client_secret=xyz'',
       Get ''https://raw.githubusercontent.com/electron/electron/vundefined/atom/common/chrome_version.h?client_id=abc&client_secret=xyz''])"
    by code_simp
  from example_master
    absent_electron_still_fetches [of example_world "''master''" None "''runtime \"electron\"''"]
  have "getElectron example_world ''master'' =
     (Inr None, [Get (package_uri example_world ''master''), Get (yarnrc_uri example_world ''master'')])"
    by simp
  with f show ?thesis by simp
qed

section \<open>Lineage builder: cached versions\<close>

lemma versions_loop_cached:
  "set vs \<subseteq> set cached \<Longrightarrow> versions_loop fetch cached vs = io_return []"
  by (induction vs) auto

text \<open>
  C6. When the tag request settles with a list of candidates (the branch name master
  included, in the entry point that adds it) and every candidate is the name of a cached
  record, getVersions settles with the cached lineage itself, and has made no request but
  those for the tags.
\<close>

theorem getVersions_idempotent:
  "(fetchVSCodeVersion w = Some (Inr candidates, tr) \<and>
      set candidates \<subseteq> set (map vscode VERSION) \<longrightarrow>
      getVersions w VERSION = Some (Inr VERSION, tr)) \<and>
   (index_fetchVSCodeVersion w = Some (Inr candidates, tr) \<and>
      set candidates \<subseteq> set (map vscode VERSION) \<longrightarrow>
      index_getVersions w VERSION = Some (Inr VERSION, tr))"
  by (simp add: getVersions_def index_getVersions_def versions_loop_cached io_bind_Inr
      io_bind_return io_return_def)


theorem getVersions_idempotent_witness:
  "getVersions example_world
     [\<lparr>vscode = ''master'', electron = None, node = None, chrome = None\<rparr>,
      \<lparr>vscode = ''1.20.0'', electron = Some ''1.7.9'', node = Some ''7.9.0'',
        chrome = Some ''58.0.3029.110''\<rparr>] =
     Some (Inr
       [\<lparr>vscode = ''master'', electron = None, node = None, chrome = None\<rparr>,
        \<lparr>vscode = ''1.20.0'', electron = Some ''1.7.9'', node = Some ''7.9.0'',
          chrome = Some ''58.0.3029.110''\<rparr>],
       [Get ''https://api.github.com/repos/Microsoft/vscode/tags?client_id=abc&client_secret=xyz'']) \<and>
   index_getVersions example_world
     [\<lparr>vscode = ''1.20.0'', electron = Some ''1.7.9'', node = Some ''7.9.0'',
        chrome = Some ''58.0.3029.110''\<rparr>] =
     Some (Inr
       [\<lparr>vscode = ''1.20.0'', electron = Some ''1.7.9'', node = Some ''7.9.0'',
          chrome = Some ''58.0.3029.110''\<rparr>],
       [Get ''https://api.github.com/repos/Microsoft/vscode/tags?client_id=abc&client_secret=xyz''])"
proof -
  let ?tr = "[Get ''https://api.github.com/repos/Microsoft/vscode/tags?client_id=abc&client_secret=xyz'']"
  let ?r = "\<lparr>vscode = ''1.20.0'', electron = Some ''1.7.9'', node = Some ''7.9.0'',
        chrome = Some ''58.0.3029.110''\<rparr>"
  let ?m = "\<lparr>vscode = ''master'', electron = None, node = None, chrome = None\<rparr>"
  have f: "fetchVSCodeVersion example_world = Some (Inr [''master'', ''1.20.0''], ?tr)"
    by code_simp
  have g: "index_fetchVSCodeVersion example_world = Some (Inr [''1.20.0''], ?tr)"
    by code_simp
  have "getVersions example_world [?m, ?r] = Some (Inr [?m, ?r], ?tr)"
    using getVersions_idempotent [of example_world "[''master'', ''1.20.0'']" ?tr "[?m, ?r]"] f
    by simp
  moreover have "index_getVersions example_world [?r] = Some (Inr [?r], ?tr)"
    using getVersions_idempotent [of example_world "[''1.20.0'']" ?tr "[?r]"] g
    by simp
  ultimately show ?thesis by simp
qed

section \<open>Report and snapshot writer\<close>

lemma saveToFile_trace:
  assumes "fst (saveToFile w tweet list) = Inr t"
  shows "\<exists>md. snd (saveToFile w tweet list) =
    [Get issue_uri, WriteFile ''README.md'' md, WriteJson ''version.json'' (shift list)]"
proof (cases "alertLevel list")
  case (Inl e)
  with assms show ?thesis
    by (simp add: saveToFile_def lift_def io_bind_Inl)
next
  case (Inr al)
  show ?thesis
  proof (cases "issue_searches w issue_uri")
    case None
    with Inr assms show ?thesis
      by (simp add: saveToFile_def lift_def io_bind_Inr io_bind_Inl getIssues_def io_bind_request)
  next
    case (Some issueList)
    with Inr show ?thesis
      by (simp add: saveToFile_def lift_def io_bind_Inr getIssues_def io_bind_request
          io_bind_emit io_return_def)
  qed
qed

text \<open>
  C5. Whenever saveToFile of the entry point with notification completes, it has written
  one snapshot, the lineage without its first entry: for a lineage of N entries, N at least
  1, the N - 1 last ones in their order. saveToFile of index.ts writes the whole lineage.
\<close>

theorem snapshot_is_tail:
  "(fst (saveToFile w tweet list) = Inr t \<longrightarrow>
      snapshots (snd (saveToFile w tweet list)) = [shift list]) \<and>
   (list \<noteq> [] \<longrightarrow> shift list = tl list \<and> length (shift list) = length list - 1) \<and>
   snapshots (snd (index_saveToFile list)) = [list]"
proof -
  have "snapshots (snd (saveToFile w tweet list)) = [shift list]"
    if "fst (saveToFile w tweet list) = Inr t"
    using saveToFile_trace [OF that] by auto
  moreover have "shift list = tl list \<and> length (shift list) = length list - 1" if "list \<noteq> []"
    using that by (cases list) simp_all
  moreover have "snapshots (snd (index_saveToFile list)) = [list]"
    by (simp add: index_saveToFile_def io_bind_Inr emit_def)
  ultimately show ?thesis by blast
qed

theorem snapshot_is_tail_witness:
  "fst (saveToFile example_world ''#VSCodeWatcher ''
     [\<lparr>vscode = ''Latest'', electron = Some ''2.0.0'', node = Some ''8.9.3'',
        chrome = Some ''61.0.3163.100''\<rparr>,
      \<lparr>vscode = ''1.20.0'', electron = Some ''1.7.9'', node = Some ''7.9.0'',
        chrome = Some ''58.0.3029.110''\<rparr>]) =
     Inr ''#VSCodeWatcher Warning! Change in the next release. 1 open issue(s) about Electron update. '' \<and>
   snapshots (snd (saveToFile example_world ''#VSCodeWatcher ''
     [\<lparr>vscode = ''Latest'', electron = Some ''2.0.0'', node = Some ''8.9.3'',
        chrome = Some ''61.0.3163.100''\<rparr>,
      \<lparr>vscode = ''1.20.0'', electron = Some ''1.7.9'', node = Some ''7.9.0'',
        chrome = Some ''58.0.3029.110''\<rparr>])) =
     [[\<lparr>vscode = ''1.20.0'', electron = Some ''1.7.9'', node = Some ''7.9.0'',
        chrome = Some ''58.0.3029.110''\<rparr>]]"
proof -
  let ?l = "[\<lparr>vscode = ''Latest'', electron = Some ''2.0.0'', node = Some ''8.9.3'',
        chrome = Some ''61.0.3163.100''\<rparr>,
      \<lparr>vscode = ''1.20.0'', electron = Some ''1.7.9'', node = Some ''7.9.0'',
        chrome = Some ''58.0.3029.110''\<rparr>]"
  let ?t = "''#VSCodeWatcher Warning! Change in the next release. 1 open issue(s) about Electron update. ''"
  have f: "fst (saveToFile example_world ''#VSCodeWatcher '' ?l) = Inr ?t"
    by code_simp
  from snapshot_is_tail [of example_world "''#VSCodeWatcher ''" ?l ?t] f
  show ?thesis by simp
qed

text \<open>
  The claim as it is written fails for index.ts: for a lineage of two entries the snapshot
  it writes has two entries.
\<close>

theorem index_snapshot_counterexample:
  "snapshots (snd (index_saveToFile
     [\<lparr>vscode = ''1.21.0'', electron = Some ''2.0.0'', node = Some ''8.9.3'',
        chrome = Some ''61.0.3163.100''\<rparr>,
      \<lparr>vscode = ''1.20.0'', electron = Some ''1.7.9'', node = Some ''7.9.0'',
        chrome = Some ''58.0.3029.110''\<rparr>])) =
     [[\<lparr>vscode = ''1.21.0'', electron = Some ''2.0.0'', node = Some ''8.9.3'',
        chrome = Some ''61.0.3163.100''\<rparr>,
      \<lparr>vscode = ''1.20.0'', electron = Some ''1.7.9'', node = Some ''7.9.0'',
        chrome = Some ''58.0.3029.110''\<rparr>]]"
  by (simp add: index_saveToFile_def io_bind_Inr emit_def)


section \<open>Notification\<close>

lemma credentials_endpoint: "credentials (w\<lparr>TWEET_ENDPOINT := e\<rparr>) = credentials w"
  by (simp add: credentials_def)

lemma getElectron_endpoint: "getElectron (w\<lparr>TWEET_ENDPOINT := e\<rparr>) v = getElectron w v"
  by (simp add: getElectron_def package_uri_def yarnrc_uri_def credentials_endpoint cong: if_cong)

lemma getChromeVersion_endpoint:
  "getChromeVersion (w\<lparr>TWEET_ENDPOINT := e\<rparr>) ev = getChromeVersion w ev"
  by (simp add: getChromeVersion_def chrome_uri_def credentials_endpoint)

lemma getNodeVersion_endpoint:
  "getNodeVersion (w\<lparr>TWEET_ENDPOINT := e\<rparr>) ev = getNodeVersion w ev"
  by (simp add: getNodeVersion_def submodule_uri_def node_version_uri_def credentials_endpoint
      cong: if_cong)

lemma fetch_version_endpoint:
  "fetch_version (w\<lparr>TWEET_ENDPOINT := e\<rparr>) = fetch_version w"
  by (rule ext)
     (simp add: fetch_version_def getElectron_endpoint getChromeVersion_endpoint
       getNodeVersion_endpoint)

lemma getVersions_endpoint:
  "getVersions (w\<lparr>TWEET_ENDPOINT := e\<rparr>) VERSION = getVersions w VERSION"
  by (simp add: getVersions_def fetchVSCodeVersion_def tags_uri_def credentials_endpoint
      fetch_version_endpoint)

lemma saveToFile_endpoint:
  "saveToFile (w\<lparr>TWEET_ENDPOINT := e\<rparr>) tweet list = saveToFile w tweet list"
  by (simp add: saveToFile_def getIssues_def report_def)

lemma postTweet_event:
  "\<exists>ev. postTweet w tweet = (Inr (), [ev]) \<and> \<not> request_or_write ev"
  by (auto simp: postTweet_def emit_def split: option.splits)

lemma observed_bind:
  assumes "\<And>x. observed (f x) = observed (g x)"
  shows "observed (io_bind m f) = observed (io_bind m g)"
proof (cases m)
  case (Pair r t)
  show ?thesis
  proof (cases r)
    case (Inl e)
    with Pair show ?thesis by (simp add: io_bind_Inl)
  next
    case (Inr x)
    with Pair assms [of x] show ?thesis
      by (simp add: io_bind_Inr observed_def)
  qed
qed

lemma observed_notification:
  "observed (io_bind (postTweet w tweet) (\<lambda>_. emit (Log s))) = (Inr (), [])"
proof -
  obtain ev where "postTweet w tweet = (Inr (), [ev])" "\<not> request_or_write ev"
    using postTweet_event by blast
  then show ?thesis
    by (simp add: io_bind_Inr emit_def observed_def)
qed

lemma observed_start:
  "map_option observed (start (w\<lparr>TWEET_ENDPOINT := None\<rparr>) VERSION) =
     map_option observed (start (w\<lparr>TWEET_ENDPOINT := e\<rparr>) VERSION)"
proof -
  have "observed (io_bind m (\<lambda>list.
          io_bind (saveToFile w t list) (\<lambda>tweet.
          io_bind (postTweet (w\<lparr>TWEET_ENDPOINT := None\<rparr>) (tweet @ l)) (\<lambda>_. emit (Log s))))) =
        observed (io_bind m (\<lambda>list.
          io_bind (saveToFile w t list) (\<lambda>tweet.
          io_bind (postTweet (w\<lparr>TWEET_ENDPOINT := e\<rparr>) (tweet @ l)) (\<lambda>_. emit (Log s)))))"
    for m t l s
    by (intro observed_bind) (simp add: observed_notification)
  then show ?thesis
    by (cases "getVersions w VERSION")
       (simp_all add: start_def getVersions_endpoint saveToFile_endpoint)
qed

lemma saveToFile_settled:
  assumes "saveToFile w tweet list = (Inr tweet', t)"
  shows "\<exists>al issueList. alertLevel list = Inr al \<and> issue_searches w issue_uri = Some issueList \<and>
    t = [Get issue_uri, WriteFile ''README.md'' (report w al list @ issue_table issueList),
         WriteJson ''version.json'' (shift list)]"
proof (cases "alertLevel list")
  case (Inl e)
  with assms show ?thesis
    by (simp add: saveToFile_def lift_def io_bind_Inl)
next
  case (Inr al)
  show ?thesis
  proof (cases "issue_searches w issue_uri")
    case None
    with Inr assms show ?thesis
      by (simp add: saveToFile_def lift_def io_bind_Inr io_bind_Inl getIssues_def io_bind_request)
  next
    case (Some issueList)
    with Inr assms show ?thesis
      by (simp add: saveToFile_def lift_def io_bind_Inr getIssues_def io_bind_request
          io_bind_emit io_return_def)
  qed
qed

text \<open>
  C9. Without a notification endpoint, postTweet logs that none was found and returns
  normally. When getVersions and saveToFile have settled with values, start then completes:
  after their events, among them the writes of README.md and of version.json, it logs that
  message and the final line, and it sends nothing. With any endpoint configured the run
  has the same events but for the one event of postTweet; and in every case the outcome,
  the requests and the files written are the same without and with an endpoint.
\<close>

theorem missing_endpoint_skips_notification:
  assumes "TWEET_ENDPOINT w = None"
    and "getVersions w VERSION = Some (Inr list, t1)"
    and "saveToFile w ''#VSCodeWatcher '' list = (Inr tweet, t2)"
  shows "postTweet w tweet' = (Inr (), [Log ''No tweet endpoint found.'']) \<and>
    start w VERSION =
      Some (Inr (), t1 @ t2 @ [Log ''No tweet endpoint found.'', Log ''Finished!'']) \<and>
    (\<exists>al issueList. alertLevel list = Inr al \<and> issue_searches w issue_uri = Some issueList \<and>
       t2 = [Get issue_uri, WriteFile ''README.md'' (report w al list @ issue_table issueList),
             WriteJson ''version.json'' (shift list)]) \<and>
    (\<exists>ev. \<not> request_or_write ev \<and>
       start (w\<lparr>TWEET_ENDPOINT := e\<rparr>) VERSION = Some (Inr (), t1 @ t2 @ [ev, Log ''Finished!''])) \<and>
    map_option observed (start (w\<lparr>TWEET_ENDPOINT := e\<rparr>) VERSION') =
      map_option observed (start w VERSION')"
proof -
  have p: "postTweet w x = (Inr (), [Log ''No tweet endpoint found.''])" for x
    using assms(1) by (simp add: postTweet_def emit_def)
  have s: "start w VERSION =
      Some (Inr (), t1 @ t2 @ [Log ''No tweet endpoint found.'', Log ''Finished!''])"
    by (simp add: start_def assms(2,3) io_bind_Inr p emit_def)
  obtain ev where ev: "postTweet (w\<lparr>TWEET_ENDPOINT := e\<rparr>)
      (tweet @ ''https://github.com/Sneezry/vscode-version-watcher#vscode-version-watcher'') =
      (Inr (), [ev])" "\<not> request_or_write ev"
    using postTweet_event by blast
  have s': "start (w\<lparr>TWEET_ENDPOINT := e\<rparr>) VERSION = Some (Inr (), t1 @ t2 @ [ev, Log ''Finished!''])"
    by (simp add: start_def getVersions_endpoint saveToFile_endpoint assms(2,3) io_bind_Inr ev(1)
        emit_def)
  have w0: "w\<lparr>TWEET_ENDPOINT := None\<rparr> = w"
    using assms(1) by simp
  have o: "map_option observed (start (w\<lparr>TWEET_ENDPOINT := e\<rparr>) VERSION') =
      map_option observed (start w VERSION')"
    using observed_start [of w VERSION' e] w0 by simp
  from p s s' ev(2) o saveToFile_settled [OF assms(3)] show ?thesis
    by blast
qed


theorem missing_endpoint_skips_notification_witness:
  "start (example_world\<lparr>TWEET_ENDPOINT := None\<rparr>)
     [\<lparr>vscode = ''master'', electron = None, node = None, chrome = None\<rparr>,
      \<lparr>vscode = ''1.20.0'', electron = Some ''1.7.9'', node = Some ''7.9.0'',
        chrome = Some ''58.0.3029.110''\<rparr>] =
     Some (Inr (),
       [Get ''https://api.github.com/repos/Microsoft/vscode/tags?client_id=abc&client_secret=xyz'',
        Get issue_uri,
        WriteFile ''README.md''
          (report (example_world\<lparr>TWEET_ENDPOINT := None\<rparr>) 0
             [\<lparr>vscode = ''master'', electron = None, node = None, chrome = None\<rparr>,
              \<lparr>vscode = ''1.20.0'', electron = Some ''1.7.9'', node = Some ''7.9.0'',
                chrome = Some ''58.0.3029.110''\<rparr>] @
           issue_table
             [\<lparr>html_url = ''https://github.com/Microsoft/vscode/issues/1'', title = ''Electron 2.0'',
                issue_body = ''Update'', created_at = ''2018-04-01T00:00:00Z'',
                updated_at = ''2018-04-02T00:00:00Z'', user_login = ''octocat'',
                user_html_url = ''https://github.com/octocat''\<rparr>]),
        WriteJson ''version.json''
          [\<lparr>vscode = ''1.20.0'', electron = Some ''1.7.9'', node = Some ''7.9.0'',
             chrome = Some ''58.0.3029.110''\<rparr>],
        Log ''No tweet endpoint found.'', Log ''Finished!''])"
proof -
  let ?w = "example_world\<lparr>TWEET_ENDPOINT := None\<rparr>"
  let ?V = "[\<lparr>vscode = ''master'', electron = None, node = None, chrome = None\<rparr>,
      \<lparr>vscode = ''1.20.0'', electron = Some ''1.7.9'', node = Some ''7.9.0'',
        chrome = Some ''58.0.3029.110''\<rparr>]"
  let ?t1 = "[Get ''https://api.github.com/repos/Microsoft/vscode/tags?client_id=abc&client_secret=xyz'']"
  let ?t2 = "[Get issue_uri,
        WriteFile ''README.md''
          (report ?w 0 ?V @
           issue_table
             [\<lparr>html_url = ''https://github.com/Microsoft/vscode/issues/1'', title = ''Electron 2.0'',
                issue_body = ''Update'', created_at = ''2018-04-01T00:00:00Z'',
                updated_at = ''2018-04-02T00:00:00Z'', user_login = ''octocat'',
                user_html_url = ''https://github.com/octocat''\<rparr>]),
        WriteJson ''version.json''
          [\<lparr>vscode = ''1.20.0'', electron = Some ''1.7.9'', node = Some ''7.9.0'',
             chrome = Some ''58.0.3029.110''\<rparr>]]"
  let ?tweet = "''#VSCodeWatcher No change in recent release. 1 open issue(s) about Electron update. ''"
  have e: "TWEET_ENDPOINT ?w = None"
    by simp
  have g: "getVersions ?w ?V = Some (Inr ?V, ?t1)"
    by code_simp
  have f: "saveToFile ?w ''#VSCodeWatcher '' ?V = (Inr ?tweet, ?t2)"
    by code_simp
  from missing_endpoint_skips_notification [OF e g f] show ?thesis
    by simp
qed

end
